theory Spec2Isabelle
  imports Complex_Main "HOL-Library.Word"
begin

section \<open>Greenlight: the data layer of the API, embedded from the Go sources\<close>

text \<open>
  The Go code talks to PostgreSQL through \<^verbatim>\<open>database/sql\<close>. The embedding makes the
  database an explicit value that every model method takes and returns: the rows of the
  \<^verbatim>\<open>movies\<close> and \<^verbatim>\<open>tokens\<close> tables and the list of statements that reached the
  driver. A Go \<^verbatim>\<open>error\<close> return is a value of the type \<open>error\<close>; a pointer argument the
  method writes through (\<^verbatim>\<open>movie *Movie\<close>) is returned updated.
\<close>

subsection \<open>Machine integers and errors\<close>

type_synonym int64 = "64 word"
type_synonym int32 = "32 word"
type_synonym byte = "8 word"

text \<open>Go's \<^verbatim>\<open>time.Time\<close> as nanoseconds on one clock; \<^verbatim>\<open>time.Duration\<close> is an int64.\<close>

type_synonym time = int

text \<open>
  \<^verbatim>\<open>sql.ErrNoRows\<close> is what \<^verbatim>\<open>Row.Scan\<close> reports when the statement produced no row.
  Any other failure of a call (the 3 second context deadline, a lost connection, an error
  raised by the server) is \<open>ErrDriver\<close> with its message.
\<close>

datatype sql_error = ErrNoRows | ErrDriver string

text \<open>
  internal/data/models.go: \<^verbatim>\<open>ErrRecordNotFound\<close> and \<^verbatim>\<open>ErrEditConflict\<close>. A method's
  \<^verbatim>\<open>default: return err\<close> branch hands the \<^verbatim>\<open>database/sql\<close> error on as it is.
\<close>

datatype error = ErrRecordNotFound | ErrEditConflict | SqlError sql_error

text \<open>\<^verbatim>\<open>[]byte(s)\<close>: a Go string is its bytes.\<close>

definition bytes_of :: "string \<Rightarrow> byte list" where
  "bytes_of s = map (\<lambda>c. of_nat (of_char c)) s"

subsection \<open>Users and passwords\<close>

text \<open>
  internal/data/users.go. \<^verbatim>\<open>plaintext *string\<close> is an optional string; Go's \<^verbatim>\<open>int\<close>
  (\<^verbatim>\<open>Version\<close>) is 64 bits wide. The struct tags of \<^verbatim>\<open>User\<close> are kept in
  \<open>reflect_User\<close> below.
\<close>

record password =
  plaintext :: "string option"
  hash :: "byte list"

record User =
  ID :: int64
  CreatedAt :: time
  Name :: string
  Email :: string
  Password :: password
  Activated :: bool
  Version :: int64

text \<open>
  \<^verbatim>\<open>password.Set\<close>. \<^verbatim>\<open>bcrypt.GenerateFromPassword(password, cost)\<close> belongs to
  \<^verbatim>\<open>golang.org/x/crypto\<close> and is a parameter; it returns the hash or an error. The
  receiver is written only when hashing succeeded.
\<close>

definition password_Set ::
    "(byte list \<Rightarrow> int \<Rightarrow> string + byte list) \<Rightarrow> password \<Rightarrow> string \<Rightarrow> string option \<times> password" where
  "password_Set GenerateFromPassword p plaintextPassword =
     (case GenerateFromPassword (bytes_of plaintextPassword) 12 of
        Inl err \<Rightarrow> (Some err, p)
      | Inr h \<Rightarrow> (None, p\<lparr>plaintext := Some plaintextPassword, hash := h\<rparr>))"

text \<open>
  The JSON encoding of a struct, as \<^verbatim>\<open>encoding/json\<close> documents it: a struct is walked
  field by field; a field whose name is not exported (does not start with an upper-case
  letter) or whose tag is \<^verbatim>\<open>json:"-"\<close> is left out; the others appear under the name in
  the tag, or under the field's own name when the tag gives none. A Go value is given with
  its fields (name, tag, value), which is what the encoder sees by reflection.
\<close>

datatype go_value =
    GoInt int
  | GoString string
  | GoBool bool
  | GoTime time
  | GoBytes "byte list"
  | GoStringPtr "string option"
  | GoStruct "(string \<times> string \<times> go_value) list"

datatype json =
    JNull
  | JNumber int
  | JString string
  | JBool bool
  | JTime time
  | JBase64 "byte list"
  | JObject "(string \<times> json) list"

definition exported :: "string \<Rightarrow> bool" where
  "exported name =
     (case name of [] \<Rightarrow> False
      | c # _ \<Rightarrow> (65::nat) \<le> of_char c \<and> of_char c \<le> (90::nat))"

fun marshal :: "go_value \<Rightarrow> json"
  and marshal_fields :: "(string \<times> string \<times> go_value) list \<Rightarrow> (string \<times> json) list" where
  "marshal (GoInt n) = JNumber n"
| "marshal (GoString s) = JString s"
| "marshal (GoBool b) = JBool b"
| "marshal (GoTime t) = JTime t"
| "marshal (GoBytes bs) = JBase64 bs"
| "marshal (GoStringPtr None) = JNull"
| "marshal (GoStringPtr (Some s)) = JString s"
| "marshal (GoStruct fs) = JObject (marshal_fields fs)"
| "marshal_fields [] = []"
| "marshal_fields ((name, tag, v) # rest) =
     (if \<not> exported name \<or> tag = ''-'' then marshal_fields rest
      else ((if tag = [] then name else tag), marshal v) # marshal_fields rest)"

definition reflect_password :: "password \<Rightarrow> go_value" where
  "reflect_password p =
     GoStruct [(''plaintext'', [], GoStringPtr (plaintext p)), (''hash'', [], GoBytes (hash p))]"

definition reflect_User :: "User \<Rightarrow> go_value" where
  "reflect_User u = GoStruct
     [(''ID'', ''id'', GoInt (sint (ID u))),
      (''CreatedAt'', ''created_at'', GoTime (CreatedAt u)),
      (''Name'', ''name'', GoString (Name u)),
      (''Email'', ''email'', GoString (Email u)),
      (''Password'', ''-'', reflect_password (Password u)),
      (''Activated'', ''activated'', GoBool (Activated u)),
      (''Version'', ''-'', GoInt (sint (Version u)))]"

definition json_Marshal_User :: "User \<Rightarrow> json" where
  "json_Marshal_User u = marshal (reflect_User u)"

subsection \<open>The movies table\<close>

text \<open>
  internal/data/movies.go. \<^verbatim>\<open>Runtime\<close> is the package's own integer type (its declaration
  is not among the sources) and is taken as an int32, like \<^verbatim>\<open>Year\<close>.
\<close>

record Movie =
  ID :: int64
  CreatedAt :: time
  Title :: string
  Year :: int32
  Runtime :: int32
  Genres :: "string list"
  Version :: int32

text \<open>A row of the \<^verbatim>\<open>tokens\<close> table: \<^verbatim>\<open>hash, user_id, expiry, scope\<close>.\<close>

record token_row =
  row_hash :: "byte list"
  row_user_id :: int64
  row_expiry :: time
  row_scope :: string

text \<open>The statements the data layer sends, with their placeholder arguments.\<close>

datatype statement =
    SelectMovie int64
  | UpdateMovie string int32 int32 "string list" int64 int32
  | DeleteMovie int64
  | InsertToken "byte list" int64 time string
  | DeleteTokens string int64

record DB =
  movie_rows :: "Movie list"
  token_rows :: "token_row list"
  issued :: "statement list"

text \<open>
  What the environment does to one call: \<open>None\<close> lets the statement run, \<open>Some msg\<close>
  makes the driver fail with that message before any row is touched (a statement is
  atomic: it is applied whole or not at all).
\<close>

type_synonym fault = "string option"

definition send :: "statement \<Rightarrow> DB \<Rightarrow> DB" where
  "send q db = db\<lparr>issued := issued db @ [q]\<rparr>"

subsection \<open>MovieModel.Get\<close>

text \<open>
  \<^verbatim>\<open>SELECT ... FROM movies WHERE id = $1\<close>, read with \<^verbatim>\<open>QueryRowContext(...).Scan\<close>:
  the first row of the result, \<^verbatim>\<open>sql.ErrNoRows\<close> when there is none.
\<close>

definition select_movie :: "Movie list \<Rightarrow> int64 \<Rightarrow> sql_error + Movie" where
  "select_movie rows i =
     (case filter (\<lambda>r. ID r = i) rows of [] \<Rightarrow> Inl ErrNoRows | r # _ \<Rightarrow> Inr r)"

definition Get :: "fault \<Rightarrow> DB \<Rightarrow> int64 \<Rightarrow> (error + Movie) \<times> DB" where
  "Get f db i =
     (if sint i < 1 then (Inl ErrRecordNotFound, db)
      else
        let db' = send (SelectMovie i) db;
            scanned = (case f of Some msg \<Rightarrow> Inl (ErrDriver msg)
                       | None \<Rightarrow> select_movie (movie_rows db) i)
        in case scanned of
             Inl ErrNoRows \<Rightarrow> (Inl ErrRecordNotFound, db')
           | Inl e \<Rightarrow> (Inl (SqlError e), db')
           | Inr movie \<Rightarrow> (Inr movie, db'))"

subsection \<open>MovieModel.Delete\<close>

text \<open>
  \<^verbatim>\<open>DELETE FROM movies WHERE id = $1\<close> through \<^verbatim>\<open>ExecContext\<close>; the result's
  \<^verbatim>\<open>RowsAffected()\<close> is the number of rows deleted, and may itself fail (second fault).
\<close>

definition delete_movie :: "Movie list \<Rightarrow> int64 \<Rightarrow> Movie list \<times> nat" where
  "delete_movie rows i =
     (filter (\<lambda>r. ID r \<noteq> i) rows, length (filter (\<lambda>r. ID r = i) rows))"

definition Delete :: "fault \<Rightarrow> fault \<Rightarrow> DB \<Rightarrow> int64 \<Rightarrow> error option \<times> DB" where
  "Delete f f_rows db i =
     (if sint i < 1 then (Some ErrRecordNotFound, db)
      else
        let db' = send (DeleteMovie i) db in
        case f of
          Some msg \<Rightarrow> (Some (SqlError (ErrDriver msg)), db')
        | None \<Rightarrow>
            let (rows', rowsAffected) = delete_movie (movie_rows db') i;
                db'' = db'\<lparr>movie_rows := rows'\<rparr>
            in case f_rows of
                 Some msg \<Rightarrow> (Some (SqlError (ErrDriver msg)), db'')
               | None \<Rightarrow>
                   if rowsAffected = 0 then (Some ErrRecordNotFound, db'')
                   else (None, db''))"

subsection \<open>MovieModel.Update\<close>

text \<open>
  \<^verbatim>\<open>UPDATE movies SET title = $1, year = $2, runtime = $3, genres = $4,
  version = version + 1 WHERE id = $5 AND version = $6 RETURNING version\<close>.
  \<open>matches\<close> is the WHERE clause. The \<^verbatim>\<open>version\<close> column is a 32-bit integer, as the
  \<^verbatim>\<open>int32\<close> field it is scanned into: PostgreSQL does not wrap \<^verbatim>\<open>version + 1\<close> at the
  largest value, it fails the statement (\<^verbatim>\<open>integer out of range\<close>). \<^verbatim>\<open>Scan\<close> reads the
  first returned row.
\<close>

definition matches :: "Movie \<Rightarrow> Movie \<Rightarrow> bool" where
  "matches m r = (ID r = ID m \<and> Version r = Version m)"

definition max_int32 :: int32 where
  "max_int32 = 2147483647"

definition set_row :: "Movie \<Rightarrow> Movie \<Rightarrow> Movie" where
  "set_row m r =
     r\<lparr>Title := Title m, Year := Year m, Runtime := Runtime m, Genres := Genres m,
       Version := Version r + 1\<rparr>"

definition update_movie :: "Movie list \<Rightarrow> Movie \<Rightarrow> sql_error + (Movie list \<times> int32)" where
  "update_movie rows m =
     (case filter (matches m) rows of
        [] \<Rightarrow> Inl ErrNoRows
      | r # _ \<Rightarrow>
          if Version r = max_int32 then Inl (ErrDriver ''pq: integer out of range'')
          else Inr (map (\<lambda>x. if matches m x then set_row m x else x) rows, Version r + 1))"

definition Update :: "fault \<Rightarrow> DB \<Rightarrow> Movie \<Rightarrow> (error + Movie) \<times> DB" where
  "Update f db movie =
     (let db' = send (UpdateMovie (Title movie) (Year movie) (Runtime movie) (Genres movie)
                        (ID movie) (Version movie)) db;
          scanned = (case f of Some msg \<Rightarrow> Inl (ErrDriver msg)
                     | None \<Rightarrow> update_movie (movie_rows db) movie)
      in case scanned of
           Inl ErrNoRows \<Rightarrow> (Inl ErrEditConflict, db')
         | Inl e \<Rightarrow> (Inl (SqlError e), db')
         | Inr (rows', v) \<Rightarrow> (Inr (movie\<lparr>Version := v\<rparr>), db'\<lparr>movie_rows := rows'\<rparr>))"

subsection \<open>Tokens\<close>

definition ScopeActivation :: string where
  "ScopeActivation = ''activation''"

definition ScopeAuthentication :: string where
  "ScopeAuthentication = ''authentication''"

record Token =
  Plaintext :: string
  Hash :: "byte list"
  UserID :: int64
  Expiry :: time
  Scope :: string

text \<open>
  What \<^verbatim>\<open>generateToken\<close> takes from outside the program: the operating system's random
  bytes (\<open>rand_bytes n\<close> is the n-th byte read), the wall clock, and the SHA-256
  function of \<^verbatim>\<open>crypto/sha256\<close>, which is left uninterpreted.
\<close>

record sys =
  rand_bytes :: "nat \<Rightarrow> byte"
  clock :: time
  sha256_Sum256 :: "byte list \<Rightarrow> byte list"

text \<open>
  The standard library's \<^verbatim>\<open>crypto/rand.Text()\<close>: it reads 26 random bytes and maps
  each to the base32 alphabet by its value modulo 32.
\<close>

definition base32alphabet :: string where
  "base32alphabet = ''ABCDEFGHIJKLMNOPQRSTUVWXYZ234567''"

definition rand_Text :: "(nat \<Rightarrow> byte) \<Rightarrow> string" where
  "rand_Text src = map (\<lambda>i. base32alphabet ! (unat (src i) mod 32)) [0..<26]"

definition generateToken :: "sys \<Rightarrow> int64 \<Rightarrow> int64 \<Rightarrow> string \<Rightarrow> Token" where
  "generateToken w userID ttl scope =
     (let token = \<lparr>Plaintext = rand_Text (rand_bytes w), Hash = [], UserID = userID,
                    Expiry = clock w + sint ttl, Scope = scope\<rparr>;
          hash = sha256_Sum256 w (bytes_of (Plaintext token))
      in token\<lparr>Hash := hash\<rparr>)"

text \<open>\<^verbatim>\<open>INSERT INTO tokens (hash, user_id, expiry, scope) VALUES ($1, $2, $3, $4)\<close>.\<close>

definition Insert :: "fault \<Rightarrow> DB \<Rightarrow> Token \<Rightarrow> error option \<times> DB" where
  "Insert f db token =
     (let db' = send (InsertToken (Hash token) (UserID token) (Expiry token) (Scope token)) db
      in case f of
           Some msg \<Rightarrow> (Some (SqlError (ErrDriver msg)), db')
         | None \<Rightarrow>
             (None, db'\<lparr>token_rows := token_rows db' @
                [\<lparr>row_hash = Hash token, row_user_id = UserID token,
                  row_expiry = Expiry token, row_scope = Scope token\<rparr>]\<rparr>))"

text \<open>\<^verbatim>\<open>TokenModel.New\<close> returns the token together with the error of the insert.\<close>

definition New :: "sys \<Rightarrow> fault \<Rightarrow> DB \<Rightarrow> int64 \<Rightarrow> int64 \<Rightarrow> string
    \<Rightarrow> Token \<times> error option \<times> DB" where
  "New w f db userID ttl scope =
     (let token = generateToken w userID ttl scope;
          r = Insert f db token
      in (token, fst r, snd r))"

text \<open>\<^verbatim>\<open>DELETE FROM tokens WHERE scope = $1 AND user_id = $2\<close>.\<close>

definition DeleteAllForUser :: "fault \<Rightarrow> DB \<Rightarrow> string \<Rightarrow> int64 \<Rightarrow> error option \<times> DB" where
  "DeleteAllForUser f db scope userID =
     (let db' = send (DeleteTokens scope userID) db
      in case f of
           Some msg \<Rightarrow> (Some (SqlError (ErrDriver msg)), db')
         | None \<Rightarrow>
             (None, db'\<lparr>token_rows :=
                filter (\<lambda>t. \<not> (row_scope t = scope \<and> row_user_id t = userID)) (token_rows db')\<rparr>))"

subsection \<open>The validator\<close>

text \<open>
  Modelled from the spec: the package \<^verbatim>\<open>internal/validator\<close> (\<^verbatim>\<open>Validator\<close>,
  \<^verbatim>\<open>Check\<close>, \<^verbatim>\<open>Valid\<close>, \<^verbatim>\<open>PermittedValue\<close>) is not among the sources. The spec has
  validation failures "accumulated across all violated constraints and returned together
  as a field to message mapping": \<open>Errors\<close> is that mapping, \<open>Check\<close> records the message
  under the field when the condition is false (a field that already has a message keeps
  it), and the validator is valid when nothing was recorded. A safelist is "an explicit
  allow-list of accepted values": \<open>PermittedValue\<close> is membership.
\<close>

record Validator =
  Errors :: "(string \<times> string) list"

definition AddError :: "Validator \<Rightarrow> string \<Rightarrow> string \<Rightarrow> Validator" where
  "AddError v key message =
     (if key \<in> set (map fst (Errors v)) then v
      else v\<lparr>Errors := Errors v @ [(key, message)]\<rparr>)"

definition Check :: "Validator \<Rightarrow> bool \<Rightarrow> string \<Rightarrow> string \<Rightarrow> Validator" where
  "Check v ok key message = (if \<not> ok then AddError v key message else v)"

definition Valid :: "Validator \<Rightarrow> bool" where
  "Valid v = (Errors v = [])"

definition PermittedValue :: "'a \<Rightarrow> 'a list \<Rightarrow> bool" where
  "PermittedValue x permittedValues = (x \<in> set permittedValues)"

definition ValidateTokenPlaintext :: "Validator \<Rightarrow> string \<Rightarrow> Validator" where
  "ValidateTokenPlaintext v tokenPlaintext =
     (let v1 = Check v (tokenPlaintext \<noteq> []) ''token'' ''must be provided''
      in Check v1 (length tokenPlaintext = 26) ''token'' ''must be 26 bytes long'')"

subsection \<open>Filters\<close>

record Filters =
  Page :: int64
  PageSize :: int64
  Sort :: string
  SortSafeList :: "string list"

text \<open>\<^verbatim>\<open>strings.HasPrefix\<close> and \<^verbatim>\<open>strings.TrimPrefix\<close> of the standard library.\<close>

definition HasPrefix :: "string \<Rightarrow> string \<Rightarrow> bool" where
  "HasPrefix s prefix = (length prefix \<le> length s \<and> take (length prefix) s = prefix)"

definition TrimPrefix :: "string \<Rightarrow> string \<Rightarrow> string" where
  "TrimPrefix s prefix = (if HasPrefix s prefix then drop (length prefix) s else s)"

text \<open>
  \<^verbatim>\<open>sortColumn\<close>: the loop over the safelist returns at the first entry equal to
  \<^verbatim>\<open>f.Sort\<close>; falling out of the loop is the \<^verbatim>\<open>panic\<close>, here \<open>Inl\<close> with its message.
\<close>

fun sortColumn_loop :: "string \<Rightarrow> string list \<Rightarrow> string + string" where
  "sortColumn_loop s [] = Inl (''unsafe sort parameter: '' @ s)"
| "sortColumn_loop s (safeValue # rest) =
     (if s = safeValue then Inr (TrimPrefix s ''-'') else sortColumn_loop s rest)"

definition sortColumn :: "Filters \<Rightarrow> string + string" where
  "sortColumn f = sortColumn_loop (Sort f) (SortSafeList f)"

definition sortDirection :: "Filters \<Rightarrow> string" where
  "sortDirection f = (if HasPrefix (Sort f) ''-'' then ''DESC'' else ''ASC'')"

definition ValidateFilters :: "Validator \<Rightarrow> Filters \<Rightarrow> Validator" where
  "ValidateFilters v f =
     (let v1 = Check v (0 < sint (Page f)) ''page'' ''must be greater than zero'';
          v2 = Check v1 (sint (Page f) \<le> 10000000) ''page'' ''must be  maximum of 10 million'';
          v3 = Check v2 (0 < sint (PageSize f)) ''page_size'' ''must be greater than zero'';
          v4 = Check v3 (sint (PageSize f) \<le> 100) ''page_size'' ''must be a maximum of 100''
      in Check v4 (PermittedValue (Sort f) (SortSafeList f)) ''sort'' ''invalid sort value'')"

subsection \<open>The rate limiter\<close>

text \<open>
  cmd/api/main.go: the limiter's settings and the defaults of the flags
  \<^verbatim>\<open>-limiter-rps\<close>, \<^verbatim>\<open>-limiter-burst\<close> and \<^verbatim>\<open>-limiter-enabled\<close>.
\<close>

record limiter_config =
  rps :: real
  burst :: int
  enabled :: bool

definition default_limiter :: limiter_config where
  "default_limiter = \<lparr>rps = 2, burst = 4, enabled = True\<rparr>"

text \<open>
  Modelled from the spec: the middleware that holds the buckets (\<^verbatim>\<open>rateLimit\<close> in
  cmd/api/middleware.go) is not among the sources. The spec's RateBucket is
  "tokens (float, capacity = burst), lastRefill (timestamp)", "created lazily on first
  request from a client key" with the full burst available. "On admission check: compute
  elapsed time since lastRefill, add elapsed * rps tokens capped at burst, update
  lastRefill = now; if at least 1 token available, consume one and return admit=true;
  else return admit=false". "A global enabled flag can disable rate limiting entirely
  (always admits)". Time is in seconds; token counts are exact reals.
\<close>

record RateBucket =
  tokens :: real
  lastRefill :: real

definition refill :: "limiter_config \<Rightarrow> real \<Rightarrow> RateBucket \<Rightarrow> RateBucket" where
  "refill cfg now b =
     \<lparr>tokens = min (of_int (burst cfg)) (tokens b + (now - lastRefill b) * rps cfg),
      lastRefill = now\<rparr>"

definition Admit ::
    "limiter_config \<Rightarrow> real \<Rightarrow> string \<Rightarrow> (string \<rightharpoonup> RateBucket) \<Rightarrow> bool \<times> (string \<rightharpoonup> RateBucket)" where
  "Admit cfg now clientKey buckets =
     (if \<not> enabled cfg then (True, buckets)
      else
        let b = (case buckets clientKey of
                   None \<Rightarrow> \<lparr>tokens = of_int (burst cfg), lastRefill = now\<rparr>
                 | Some b \<Rightarrow> b);
            b' = refill cfg now b
        in if 1 \<le> tokens b' then (True, buckets(clientKey \<mapsto> b'\<lparr>tokens := tokens b' - 1\<rparr>))
           else (False, buckets(clientKey \<mapsto> b')))"

text \<open>A run of admission checks for one client key, at the given times, in order.\<close>

fun Admit_run ::
    "limiter_config \<Rightarrow> string \<Rightarrow> real list \<Rightarrow> (string \<rightharpoonup> RateBucket) \<Rightarrow> bool list" where
  "Admit_run cfg clientKey [] buckets = []"
| "Admit_run cfg clientKey (now # later) buckets =
     (let r = Admit cfg now clientKey buckets
      in fst r # Admit_run cfg clientKey later (snd r))"

section \<open>Properties\<close>

subsection \<open>Helper lemmas\<close>

lemma filter_matches_cases:
  "filter P xs = [] \<or> (\<exists>x ys. filter P xs = x # ys \<and> P x \<and> x \<in> set xs)"
proof (cases "filter P xs")
  case Nil then show ?thesis by simp
next
  case (Cons x ys)
  then have "x \<in> set (filter P xs)" by simp
  then have "P x \<and> x \<in> set xs" by simp
  then show ?thesis using Cons by simp
qed

lemma sint_max_int32: "sint max_int32 = 2147483647"
  by (simp add: max_int32_def)

lemma sint_succ:
  fixes v :: int32
  assumes "v \<noteq> max_int32" shows "sint (v + 1) = sint v + 1"
proof -
  have "sint v \<noteq> sint max_int32" using assms by (auto dest: signed_word_eqI)
  then have ne: "sint v \<noteq> 2147483647" by (simp add: sint_max_int32)
  have "sint v < 2 ^ (LENGTH(32) - 1)" by (rule sint_lt)
  then have ub: "sint v < 2147483648" by simp
  have "- (2 ^ (LENGTH(32) - 1)) \<le> sint v" by (rule sint_ge)
  then have lb: "- 2147483648 \<le> sint v" by simp
  have "sint (v + 1) = signed_take_bit (LENGTH(32) - 1) (sint v + sint (1::int32))"
    by (rule sint_word_ariths)
  also have "\<dots> = signed_take_bit 31 (sint v + 1)" by simp
  also have "\<dots> = sint v + 1"
    using ne ub lb by (intro signed_take_bit_int_eq_self) simp_all
  finally show ?thesis .
qed

lemma update_movie_hit:
  assumes "r \<in> set rows" "matches m r" "Version m \<noteq> max_int32"
  shows "update_movie rows m =
           Inr (map (\<lambda>x. if matches m x then set_row m x else x) rows, Version m + 1)"
proof -
  have "filter (matches m) rows \<noteq> []"
    using assms(1,2) by (auto simp: filter_empty_conv)
  then obtain x ys where f: "filter (matches m) rows = x # ys" and "matches m x"
    using filter_matches_cases [of "matches m" rows] by auto
  then have "Version x = Version m" by (simp add: matches_def)
  then show ?thesis using f assms(3) by (simp add: update_movie_def)
qed

lemma update_movie_miss:
  "(update_movie rows m = Inl ErrNoRows) = (filter (matches m) rows = [])"
  by (auto simp: update_movie_def split: list.splits)

subsection \<open>Movies: update, delete, lookup\<close>

text \<open>
  C1 (as amended). When the statement runs (no driver fault), a row with the movie's id
  and the supplied version is stored, and that version is below the largest int32:
  \<open>Update\<close> succeeds, the returned movie carries the supplied version plus 1 (also as a
  signed number, without wrap-around), every row with that id and version takes the
  supplied title, year, runtime and genres and the new version, the other rows and the
  tokens are untouched, and an update that follows with the new version succeeds in turn
  (5 gives 6, then 6 gives 7).
\<close>

theorem C1_update_increments_version:
  assumes "r \<in> set (movie_rows db)" and "ID r = ID m" and "Version r = Version m"
    and "Version m \<noteq> max_int32"
  shows "fst (Update None db m) = Inr (m\<lparr>Version := Version m + 1\<rparr>)
       \<and> sint (Version m + 1) = sint (Version m) + 1
       \<and> movie_rows (snd (Update None db m)) =
           map (\<lambda>x. if ID x = ID m \<and> Version x = Version m
                    then x\<lparr>Title := Title m, Year := Year m, Runtime := Runtime m,
                           Genres := Genres m, Version := Version m + 1\<rparr>
                    else x) (movie_rows db)
       \<and> token_rows (snd (Update None db m)) = token_rows db
       \<and> (\<forall>m2. ID m2 = ID m \<and> Version m2 = Version m + 1 \<and> Version m2 \<noteq> max_int32 \<longrightarrow>
             fst (Update None (snd (Update None db m)) m2)
               = Inr (m2\<lparr>Version := Version m + 2\<rparr>))"
proof -
  let ?rows' = "map (\<lambda>x. if matches m x then set_row m x else x) (movie_rows db)"
  have hit: "matches m r" using assms(2,3) by (simp add: matches_def)
  have um: "update_movie (movie_rows db) m = Inr (?rows', Version m + 1)"
    using assms(1) hit assms(4) by (rule update_movie_hit)
  have res: "fst (Update None db m) = Inr (m\<lparr>Version := Version m + 1\<rparr>)"
    using um by (simp add: Update_def)
  have rows: "movie_rows (snd (Update None db m)) = ?rows'"
    using um by (simp add: Update_def send_def)
  have rows_eq: "?rows' = map (\<lambda>x. if ID x = ID m \<and> Version x = Version m
                    then x\<lparr>Title := Title m, Year := Year m, Runtime := Runtime m,
                           Genres := Genres m, Version := Version m + 1\<rparr>
                    else x) (movie_rows db)"
    by (rule map_cong) (auto simp: matches_def set_row_def)
  have toks: "token_rows (snd (Update None db m)) = token_rows db"
    using um by (simp add: Update_def send_def)
  have second: "fst (Update None (snd (Update None db m)) m2) = Inr (m2\<lparr>Version := Version m + 2\<rparr>)"
    if m2: "ID m2 = ID m \<and> Version m2 = Version m + 1 \<and> Version m2 \<noteq> max_int32" for m2
  proof -
    have in': "set_row m r \<in> set ?rows'" using assms(1) hit by force
    have hit': "matches m2 (set_row m r)"
      using m2 assms(2,3) by (simp add: matches_def set_row_def)
    have "update_movie ?rows' m2 =
            Inr (map (\<lambda>x. if matches m2 x then set_row m2 x else x) ?rows', Version m2 + 1)"
      using in' hit' m2 by (intro update_movie_hit) auto
    then show ?thesis using rows m2 by (simp add: Update_def add.assoc)
  qed
  show ?thesis using res rows rows_eq toks second assms(4) sint_succ by auto
qed

text \<open>The run of the spec: a movie at version 5, updated with 5 and then with 6.\<close>

theorem C1_update_increments_version_witness:
  "fst (Update None
          \<lparr>movie_rows = [\<lparr>ID = 7, CreatedAt = 0, Title = ''Moana'', Year = 2016, Runtime = 107,
                          Genres = [''animation''], Version = 5\<rparr>],
           token_rows = [], issued = []\<rparr>
          \<lparr>ID = 7, CreatedAt = 0, Title = ''Moana 2'', Year = 2024, Runtime = 100,
            Genres = [''animation'', ''adventure''], Version = 5\<rparr>)
     = Inr \<lparr>ID = 7, CreatedAt = 0, Title = ''Moana 2'', Year = 2024, Runtime = 100,
            Genres = [''animation'', ''adventure''], Version = 6\<rparr>
   \<and> fst (Update None
          (snd (Update None
             \<lparr>movie_rows = [\<lparr>ID = 7, CreatedAt = 0, Title = ''Moana'', Year = 2016, Runtime = 107,
                             Genres = [''animation''], Version = 5\<rparr>],
              token_rows = [], issued = []\<rparr>
             \<lparr>ID = 7, CreatedAt = 0, Title = ''Moana 2'', Year = 2024, Runtime = 100,
               Genres = [''animation'', ''adventure''], Version = 5\<rparr>))
          \<lparr>ID = 7, CreatedAt = 0, Title = ''Moana 3'', Year = 2025, Runtime = 90,
            Genres = [''animation''], Version = 6\<rparr>)
     = Inr \<lparr>ID = 7, CreatedAt = 0, Title = ''Moana 3'', Year = 2025, Runtime = 90,
            Genres = [''animation''], Version = 7\<rparr>"
proof -
  let ?r = "\<lparr>ID = 7, CreatedAt = 0, Title = ''Moana'', Year = 2016, Runtime = 107,
              Genres = [''animation''], Version = 5\<rparr> :: Movie"
  let ?db = "\<lparr>movie_rows = [?r], token_rows = [], issued = []\<rparr>"
  let ?m = "\<lparr>ID = 7, CreatedAt = 0, Title = ''Moana 2'', Year = 2024, Runtime = 100,
              Genres = [''animation'', ''adventure''], Version = 5\<rparr> :: Movie"
  let ?m2 = "\<lparr>ID = 7, CreatedAt = 0, Title = ''Moana 3'', Year = 2025, Runtime = 90,
              Genres = [''animation''], Version = 6\<rparr> :: Movie"
  have h1: "?r \<in> set (movie_rows ?db)" by simp
  have h2: "ID ?r = ID ?m" by simp
  have h3: "Version ?r = Version ?m" by simp
  have h4: "Version ?m \<noteq> max_int32" by (simp add: max_int32_def)
  note th = C1_update_increments_version [OF h1 h2 h3 h4]
  from th have first: "fst (Update None ?db ?m) = Inr (?m\<lparr>Version := Version ?m + 1\<rparr>)"
    by (rule conjunct1)
  from th have "\<forall>m2. ID m2 = ID ?m \<and> Version m2 = Version ?m + 1 \<and> Version m2 \<noteq> max_int32 \<longrightarrow>
             fst (Update None (snd (Update None ?db ?m)) m2)
               = Inr (m2\<lparr>Version := Version ?m + 2\<rparr>)"
    by blast
  then have "ID ?m2 = ID ?m \<and> Version ?m2 = Version ?m + 1 \<and> Version ?m2 \<noteq> max_int32 \<longrightarrow>
             fst (Update None (snd (Update None ?db ?m)) ?m2)
               = Inr (?m2\<lparr>Version := Version ?m + 2\<rparr>)"
    by (rule spec)
  then have second: "fst (Update None (snd (Update None ?db ?m)) ?m2)
               = Inr (?m2\<lparr>Version := Version ?m + 2\<rparr>)"
    by (simp add: max_int32_def)
  show ?thesis using first second by simp
qed

text \<open>
  The claim as stated, for every version: at the largest int32 the stored version equals
  the supplied one and the update does not succeed, since \<^verbatim>\<open>version + 1\<close> is out of the
  column's range.
\<close>

theorem C1_update_at_max_version_counterexample:
  "fst (Update None
          \<lparr>movie_rows = [\<lparr>ID = 7, CreatedAt = 0, Title = ''Moana'', Year = 2016, Runtime = 107,
                          Genres = [''animation''], Version = 2147483647\<rparr>],
           token_rows = [], issued = []\<rparr>
          \<lparr>ID = 7, CreatedAt = 0, Title = ''Moana 2'', Year = 2024, Runtime = 100,
            Genres = [''animation'', ''adventure''], Version = 2147483647\<rparr>)
     = Inl (SqlError (ErrDriver ''pq: integer out of range''))"
  by (simp add: Update_def update_movie_def matches_def max_int32_def send_def)

text \<open>
  C2. \<open>Update\<close> returns \<open>ErrEditConflict\<close> exactly when the statement ran and no row has
  both the id and the version supplied, that is, when every stored row with that id (there
  may be none) has another version; nothing in the result tells the two apart. The rows
  and tokens are then as before. Whatever the outcome, exactly one statement was sent: no
  retry.
\<close>

theorem C2_edit_conflict_iff_no_row_matches:
  "(fst (Update f db m) = Inl ErrEditConflict)
      = (f = None \<and> filter (matches m) (movie_rows db) = [])
   \<and> (filter (matches m) (movie_rows db) = [])
      = (\<forall>r \<in> set (movie_rows db). ID r = ID m \<longrightarrow> Version r \<noteq> Version m)
   \<and> (fst (Update f db m) = Inl ErrEditConflict \<longrightarrow>
        movie_rows (snd (Update f db m)) = movie_rows db \<and> token_rows (snd (Update f db m)) = token_rows db)
   \<and> issued (snd (Update f db m)) =
        issued db @ [UpdateMovie (Title m) (Year m) (Runtime m) (Genres m) (ID m) (Version m)]"
proof -
  have a: "(fst (Update f db m) = Inl ErrEditConflict)
      = (f = None \<and> filter (matches m) (movie_rows db) = [])"
  proof (cases f)
    case None
    show ?thesis
    proof (cases "update_movie (movie_rows db) m")
      case (Inl e)
      then show ?thesis using None update_movie_miss [of "movie_rows db" m]
        by (cases e) (auto simp: Update_def)
    next
      case (Inr p)
      then show ?thesis using None update_movie_miss [of "movie_rows db" m]
        by (cases p) (auto simp: Update_def)
    qed
  next
    case (Some msg)
    then show ?thesis by (simp add: Update_def)
  qed
  have b: "(filter (matches m) (movie_rows db) = [])
      = (\<forall>r \<in> set (movie_rows db). ID r = ID m \<longrightarrow> Version r \<noteq> Version m)"
    by (auto simp: filter_empty_conv matches_def)
  have c: "movie_rows (snd (Update f db m)) = movie_rows db \<and> token_rows (snd (Update f db m)) = token_rows db"
    if "fst (Update f db m) = Inl ErrEditConflict"
  proof -
    from that a have "f = None" and "update_movie (movie_rows db) m = Inl ErrNoRows"
      using update_movie_miss [of "movie_rows db" m] by auto
    then show ?thesis by (simp add: Update_def send_def)
  qed
  have d: "issued (snd (Update f db m)) =
        issued db @ [UpdateMovie (Title m) (Year m) (Runtime m) (Genres m) (ID m) (Version m)]"
  proof (cases "case f of Some msg \<Rightarrow> Inl (ErrDriver msg) | None \<Rightarrow> update_movie (movie_rows db) m")
    case (Inl e)
    then show ?thesis by (cases e) (simp_all add: Update_def send_def)
  next
    case (Inr p)
    then show ?thesis by (cases p) (simp add: Update_def send_def)
  qed
  show ?thesis using a b c d by blast
qed

text \<open>A stale version and an absent id, both answered with \<open>ErrEditConflict\<close>.\<close>

theorem C2_edit_conflict_iff_no_row_matches_witness:
  "fst (Update None
          \<lparr>movie_rows = [\<lparr>ID = 7, CreatedAt = 0, Title = ''Moana 2'', Year = 2024, Runtime = 100,
                          Genres = [''animation''], Version = 6\<rparr>],
           token_rows = [], issued = []\<rparr>
          \<lparr>ID = 7, CreatedAt = 0, Title = ''Moana 4'', Year = 2026, Runtime = 95,
            Genres = [''animation''], Version = 5\<rparr>) = Inl ErrEditConflict
   \<and> movie_rows (snd (Update None
          \<lparr>movie_rows = [\<lparr>ID = 7, CreatedAt = 0, Title = ''Moana 2'', Year = 2024, Runtime = 100,
                          Genres = [''animation''], Version = 6\<rparr>],
           token_rows = [], issued = []\<rparr>
          \<lparr>ID = 7, CreatedAt = 0, Title = ''Moana 4'', Year = 2026, Runtime = 95,
            Genres = [''animation''], Version = 5\<rparr>))
       = [\<lparr>ID = 7, CreatedAt = 0, Title = ''Moana 2'', Year = 2024, Runtime = 100,
                          Genres = [''animation''], Version = 6\<rparr>]
   \<and> fst (Update None
          \<lparr>movie_rows = [\<lparr>ID = 7, CreatedAt = 0, Title = ''Moana 2'', Year = 2024, Runtime = 100,
                          Genres = [''animation''], Version = 6\<rparr>],
           token_rows = [], issued = []\<rparr>
          \<lparr>ID = 8, CreatedAt = 0, Title = ''Moana 4'', Year = 2026, Runtime = 95,
            Genres = [''animation''], Version = 6\<rparr>) = Inl ErrEditConflict"
proof -
  let ?r = "\<lparr>ID = 7, CreatedAt = 0, Title = ''Moana 2'', Year = 2024, Runtime = 100,
              Genres = [''animation''], Version = 6\<rparr> :: Movie"
  let ?db = "\<lparr>movie_rows = [?r], token_rows = [], issued = []\<rparr>"
  let ?stale = "\<lparr>ID = 7, CreatedAt = 0, Title = ''Moana 4'', Year = 2026, Runtime = 95,
            Genres = [''animation''], Version = 5\<rparr> :: Movie"
  let ?gone = "\<lparr>ID = 8, CreatedAt = 0, Title = ''Moana 4'', Year = 2026, Runtime = 95,
            Genres = [''animation''], Version = 6\<rparr> :: Movie"
  have e1: "filter (matches ?stale) (movie_rows ?db) = []" by (simp add: matches_def)
  have e2: "filter (matches ?gone) (movie_rows ?db) = []" by (simp add: matches_def)
  from C2_edit_conflict_iff_no_row_matches [of None ?db ?stale] e1
  have s: "fst (Update None ?db ?stale) = Inl ErrEditConflict
      \<and> movie_rows (snd (Update None ?db ?stale)) = movie_rows ?db"
    by blast
  from C2_edit_conflict_iff_no_row_matches [of None ?db ?gone] e2
  have g: "fst (Update None ?db ?gone) = Inl ErrEditConflict"
    by blast
  show ?thesis using s g by simp
qed

text \<open>
  C6. \<open>Delete\<close> never returns \<open>ErrEditConflict\<close>. An id below 1 is \<open>ErrRecordNotFound\<close>.
  Otherwise, when the driver reports no failure: with no row of that id the result is
  \<open>ErrRecordNotFound\<close> and the rows are unchanged; with a row of that id, whatever its
  version, the call succeeds and no row of that id is left.
\<close>

theorem C6_delete_by_identity:
  "fst (Delete f f_rows db i) \<noteq> Some ErrEditConflict
   \<and> (sint i < 1 \<longrightarrow> fst (Delete f f_rows db i) = Some ErrRecordNotFound)
   \<and> (1 \<le> sint i \<and> (\<forall>r \<in> set (movie_rows db). ID r \<noteq> i) \<longrightarrow>
         fst (Delete None None db i) = Some ErrRecordNotFound
         \<and> movie_rows (snd (Delete None None db i)) = movie_rows db)
   \<and> (1 \<le> sint i \<and> r \<in> set (movie_rows db) \<and> ID r = i \<longrightarrow>
         fst (Delete None None db i) = None
         \<and> movie_rows (snd (Delete None None db i)) = filter (\<lambda>x. ID x \<noteq> i) (movie_rows db)
         \<and> (\<forall>x \<in> set (movie_rows (snd (Delete None None db i))). ID x \<noteq> i))"
proof -
  have a: "fst (Delete f f_rows db i) \<noteq> Some ErrEditConflict"
    by (simp add: Delete_def delete_movie_def Let_def split: option.splits)
  have b: "sint i < 1 \<longrightarrow> fst (Delete f f_rows db i) = Some ErrRecordNotFound"
    by (simp add: Delete_def)
  have c: "fst (Delete None None db i) = Some ErrRecordNotFound
         \<and> movie_rows (snd (Delete None None db i)) = movie_rows db"
    if "1 \<le> sint i \<and> (\<forall>r \<in> set (movie_rows db). ID r \<noteq> i)"
  proof -
    from that have "filter (\<lambda>r. ID r = i) (movie_rows db) = []"
      and "filter (\<lambda>r. ID r \<noteq> i) (movie_rows db) = movie_rows db"
      by (auto simp: filter_empty_conv filter_id_conv)
    then show ?thesis using that
      by (simp add: Delete_def delete_movie_def send_def)
  qed
  have d: "fst (Delete None None db i) = None
         \<and> movie_rows (snd (Delete None None db i)) = filter (\<lambda>x. ID x \<noteq> i) (movie_rows db)
         \<and> (\<forall>x \<in> set (movie_rows (snd (Delete None None db i))). ID x \<noteq> i)"
    if "1 \<le> sint i \<and> r \<in> set (movie_rows db) \<and> ID r = i"
  proof -
    from that have "filter (\<lambda>r. ID r = i) (movie_rows db) \<noteq> []"
      by (auto simp: filter_empty_conv)
    then show ?thesis using that
      by (simp add: Delete_def delete_movie_def send_def)
  qed
  show ?thesis using a b c d by blast
qed

text \<open>Deleting a stored movie, an absent one, and id 0.\<close>

theorem C6_delete_by_identity_witness:
  "fst (Delete None None
          \<lparr>movie_rows = [\<lparr>ID = 7, CreatedAt = 0, Title = ''Moana'', Year = 2016, Runtime = 107,
                          Genres = [''animation''], Version = 5\<rparr>],
           token_rows = [], issued = []\<rparr> 7) = None
   \<and> movie_rows (snd (Delete None None
          \<lparr>movie_rows = [\<lparr>ID = 7, CreatedAt = 0, Title = ''Moana'', Year = 2016, Runtime = 107,
                          Genres = [''animation''], Version = 5\<rparr>],
           token_rows = [], issued = []\<rparr> 7)) = []
   \<and> fst (Delete None None
          \<lparr>movie_rows = [\<lparr>ID = 7, CreatedAt = 0, Title = ''Moana'', Year = 2016, Runtime = 107,
                          Genres = [''animation''], Version = 5\<rparr>],
           token_rows = [], issued = []\<rparr> 8) = Some ErrRecordNotFound
   \<and> fst (Delete None None
          \<lparr>movie_rows = [\<lparr>ID = 7, CreatedAt = 0, Title = ''Moana'', Year = 2016, Runtime = 107,
                          Genres = [''animation''], Version = 5\<rparr>],
           token_rows = [], issued = []\<rparr> 0) = Some ErrRecordNotFound"
proof -
  let ?r = "\<lparr>ID = 7, CreatedAt = 0, Title = ''Moana'', Year = 2016, Runtime = 107,
              Genres = [''animation''], Version = 5\<rparr> :: Movie"
  let ?db = "\<lparr>movie_rows = [?r], token_rows = [], issued = []\<rparr>"
  have a: "1 \<le> sint (7::int64) \<and> ?r \<in> set (movie_rows ?db) \<and> ID ?r = 7" by simp
  have b: "1 \<le> sint (8::int64) \<and> (\<forall>r \<in> set (movie_rows ?db). ID r \<noteq> 8)" by simp
  have c: "sint (0::int64) < 1" by simp
  from C6_delete_by_identity [of None None ?db 7 ?r] a
  have hit: "fst (Delete None None ?db 7) = None
      \<and> movie_rows (snd (Delete None None ?db 7)) = filter (\<lambda>x. ID x \<noteq> 7) (movie_rows ?db)"
    by blast
  from C6_delete_by_identity [of None None ?db 8 ?r] b
  have miss: "fst (Delete None None ?db 8) = Some ErrRecordNotFound" by blast
  from C6_delete_by_identity [of None None ?db 0 ?r] c
  have low: "fst (Delete None None ?db 0) = Some ErrRecordNotFound" by blast
  show ?thesis using hit miss low by simp
qed

text \<open>
  C10. For every id below 1, \<open>Get\<close> and \<open>Delete\<close> answer \<open>ErrRecordNotFound\<close> at once:
  whatever the tables hold and whatever the driver would have done, the database value
  comes back as it was, so no statement was issued.
\<close>

theorem C10_id_below_one_short_circuits:
  "sint i < 1 \<Longrightarrow>
     Get f db i = (Inl ErrRecordNotFound, db)
     \<and> Delete f f_rows db i = (Some ErrRecordNotFound, db)
     \<and> issued (snd (Get f db i)) = issued db
     \<and> issued (snd (Delete f f_rows db i)) = issued db"
  by (simp add: Get_def Delete_def)

text \<open>Ids 0 and -3 against a table that holds a movie with id 0.\<close>

theorem C10_id_below_one_short_circuits_witness:
  "sint (0 :: int64) < 1
   \<and> Get None
        \<lparr>movie_rows = [\<lparr>ID = 0, CreatedAt = 0, Title = ''Moana'', Year = 2016, Runtime = 107,
                        Genres = [''animation''], Version = 1\<rparr>],
         token_rows = [], issued = []\<rparr> 0
       = (Inl ErrRecordNotFound,
          \<lparr>movie_rows = [\<lparr>ID = 0, CreatedAt = 0, Title = ''Moana'', Year = 2016, Runtime = 107,
                          Genres = [''animation''], Version = 1\<rparr>],
           token_rows = [], issued = []\<rparr>)
   \<and> Delete None None
        \<lparr>movie_rows = [\<lparr>ID = 0, CreatedAt = 0, Title = ''Moana'', Year = 2016, Runtime = 107,
                        Genres = [''animation''], Version = 1\<rparr>],
         token_rows = [], issued = []\<rparr> 0
       = (Some ErrRecordNotFound,
          \<lparr>movie_rows = [\<lparr>ID = 0, CreatedAt = 0, Title = ''Moana'', Year = 2016, Runtime = 107,
                          Genres = [''animation''], Version = 1\<rparr>],
           token_rows = [], issued = []\<rparr>)
   \<and> sint (- 3 :: int64) < 1
   \<and> issued (snd (Delete None None \<lparr>movie_rows = [], token_rows = [], issued = []\<rparr> (- 3))) = []"
proof -
  have z: "sint (0 :: int64) < 1" by simp
  have n: "sint (- 3 :: int64) < 1" by simp
  show ?thesis
    using z n C10_id_below_one_short_circuits [OF z] C10_id_below_one_short_circuits [OF n]
    by simp
qed

subsection \<open>Tokens\<close>

lemma Check_keeps_invalid: "\<not> Valid v \<Longrightarrow> \<not> Valid (Check v ok key message)"
  by (simp add: Check_def AddError_def Valid_def)

lemma Check_failed_invalid: "\<not> ok \<Longrightarrow> \<not> Valid (Check v ok key message)"
  by (auto simp: Check_def AddError_def Valid_def)

lemma Check_passed: "ok \<Longrightarrow> Check v ok key message = v"
  by (simp add: Check_def)

lemma Valid_Check_iff: "Valid (Check v ok key message) = (Valid v \<and> ok)"
  using Check_keeps_invalid Check_failed_invalid Check_passed by metis

lemma length_rand_Text: "length (rand_Text src) = 26"
  by (simp add: rand_Text_def)

lemma Valid_ValidateTokenPlaintext:
  "Valid (ValidateTokenPlaintext v s) = (Valid v \<and> s \<noteq> [] \<and> length s = 26)"
  by (simp add: ValidateTokenPlaintext_def Valid_Check_iff)

text \<open>
  C3. For every user id, time to live and scope, and whatever the random bytes, the clock
  and the driver do, \<open>New\<close> returns a token whose plaintext has exactly 26 characters,
  whose hash is the SHA-256 digest of that plaintext, and which carries the user id, the
  expiry now + ttl and the scope; when the insert goes through, the row appended to the
  tokens table holds that hash, user id, expiry and scope. The plaintext passes
  \<open>ValidateTokenPlaintext\<close>, and a plaintext that is empty or not 26 bytes long never does.
\<close>

theorem C3_token_issuance:
  "length (Plaintext (fst (New w f db userID ttl scope))) = 26
   \<and> Hash (fst (New w f db userID ttl scope))
       = sha256_Sum256 w (bytes_of (Plaintext (fst (New w f db userID ttl scope))))
   \<and> UserID (fst (New w f db userID ttl scope)) = userID
   \<and> Expiry (fst (New w f db userID ttl scope)) = clock w + sint ttl
   \<and> Scope (fst (New w f db userID ttl scope)) = scope
   \<and> (f = None \<longrightarrow>
        fst (snd (New w f db userID ttl scope)) = None
        \<and> token_rows (snd (snd (New w f db userID ttl scope))) = token_rows db @
            [\<lparr>row_hash = sha256_Sum256 w (bytes_of (Plaintext (fst (New w f db userID ttl scope)))),
              row_user_id = userID, row_expiry = clock w + sint ttl, row_scope = scope\<rparr>])
   \<and> Valid (ValidateTokenPlaintext \<lparr>Errors = []\<rparr> (Plaintext (fst (New w f db userID ttl scope))))
   \<and> (s = [] \<or> length s \<noteq> 26 \<longrightarrow> \<not> Valid (ValidateTokenPlaintext v s))"
proof -
  let ?tok = "generateToken w userID ttl scope"
  have tok: "fst (New w f db userID ttl scope) = ?tok" by (simp add: New_def Let_def)
  have p: "Plaintext ?tok = rand_Text (rand_bytes w)" by (simp add: generateToken_def Let_def)
  have len: "length (Plaintext ?tok) = 26" by (simp add: p length_rand_Text)
  have h: "Hash ?tok = sha256_Sum256 w (bytes_of (Plaintext ?tok))"
    by (simp add: generateToken_def Let_def)
  have rest: "UserID ?tok = userID \<and> Expiry ?tok = clock w + sint ttl \<and> Scope ?tok = scope"
    by (simp add: generateToken_def Let_def)
  have ins: "fst (snd (New w None db userID ttl scope)) = None
        \<and> token_rows (snd (snd (New w None db userID ttl scope))) = token_rows db @
            [\<lparr>row_hash = Hash ?tok, row_user_id = UserID ?tok, row_expiry = Expiry ?tok,
              row_scope = Scope ?tok\<rparr>]"
    by (simp add: New_def Insert_def send_def Let_def)
  have ok: "Valid (ValidateTokenPlaintext \<lparr>Errors = []\<rparr> (Plaintext ?tok))"
  proof -
    have "Valid \<lparr>Errors = []\<rparr>" by (simp add: Valid_def)
    moreover have "Plaintext ?tok \<noteq> []" using len by auto
    ultimately show ?thesis using len by (simp add: Valid_ValidateTokenPlaintext)
  qed
  have bad: "s = [] \<or> length s \<noteq> 26 \<longrightarrow> \<not> Valid (ValidateTokenPlaintext v s)"
    by (auto simp: Valid_ValidateTokenPlaintext)
  show ?thesis using tok len h rest ins ok bad by auto
qed

text \<open>
  A token for user 42 at clock 1000 with ttl 3600 (the digest function is arbitrary: list
  reversal stands in for it), and two rejected plaintexts.
\<close>

theorem C3_token_issuance_witness:
  "length (Plaintext (fst (New \<lparr>rand_bytes = of_nat, clock = 1000, sha256_Sum256 = rev\<rparr> None
        \<lparr>movie_rows = [], token_rows = [], issued = []\<rparr> 42 3600 ''activation''))) = 26
   \<and> fst (snd (New \<lparr>rand_bytes = of_nat, clock = 1000, sha256_Sum256 = rev\<rparr> None
        \<lparr>movie_rows = [], token_rows = [], issued = []\<rparr> 42 3600 ''activation'')) = None
   \<and> map row_expiry (token_rows (snd (snd (New \<lparr>rand_bytes = of_nat, clock = 1000, sha256_Sum256 = rev\<rparr> None
        \<lparr>movie_rows = [], token_rows = [], issued = []\<rparr> 42 3600 ''activation'')))) = [4600]
   \<and> \<not> Valid (ValidateTokenPlaintext \<lparr>Errors = []\<rparr> ''ABCDEFGHIJKLMNOPQRSTUVWXY'')
   \<and> \<not> Valid (ValidateTokenPlaintext \<lparr>Errors = []\<rparr> [])"
proof -
  let ?w = "\<lparr>rand_bytes = of_nat, clock = 1000, sha256_Sum256 = rev\<rparr>"
  let ?db = "\<lparr>movie_rows = [], token_rows = [], issued = []\<rparr>"
  have a: "length ''ABCDEFGHIJKLMNOPQRSTUVWXY'' \<noteq> 26" by simp
  note t1 = C3_token_issuance [of ?w None ?db 42 3600 "''activation''" "''ABCDEFGHIJKLMNOPQRSTUVWXY''" "\<lparr>Errors = []\<rparr>"]
  note t2 = C3_token_issuance [of ?w None ?db 42 3600 "''activation''" "[]" "\<lparr>Errors = []\<rparr>"]
  show ?thesis using t1 t2 a by simp
qed

text \<open>
  C7. Running \<open>DeleteAllForUser\<close> twice (under the same driver behaviour) leaves the
  tokens table as running it once does. The movies are never touched, and one statement
  is sent per call. After a run that returned no error, the table is the old one without
  the tokens of that scope and user, none of them is left, and a further run, whatever
  the driver does, changes nothing.
\<close>

theorem C7_DeleteAllForUser_idempotent:
  "token_rows (snd (DeleteAllForUser f (snd (DeleteAllForUser f db scope userID)) scope userID))
      = token_rows (snd (DeleteAllForUser f db scope userID))
   \<and> movie_rows (snd (DeleteAllForUser f db scope userID)) = movie_rows db
   \<and> issued (snd (DeleteAllForUser f db scope userID)) = issued db @ [DeleteTokens scope userID]
   \<and> (fst (DeleteAllForUser f db scope userID) = None \<longrightarrow>
        token_rows (snd (DeleteAllForUser f db scope userID))
          = filter (\<lambda>t. \<not> (row_scope t = scope \<and> row_user_id t = userID)) (token_rows db)
        \<and> (\<forall>t \<in> set (token_rows (snd (DeleteAllForUser f db scope userID))).
              \<not> (row_scope t = scope \<and> row_user_id t = userID))
        \<and> token_rows (snd (DeleteAllForUser f2 (snd (DeleteAllForUser f db scope userID)) scope userID))
            = token_rows (snd (DeleteAllForUser f db scope userID)))"
  by (cases f; cases f2) (simp_all add: DeleteAllForUser_def send_def Let_def)

text \<open>Three tokens, one of them for user 42 and scope activation.\<close>

theorem C7_DeleteAllForUser_idempotent_witness:
  "fst (DeleteAllForUser None
        \<lparr>movie_rows = [],
          token_rows = [\<lparr>row_hash = [1], row_user_id = 42, row_expiry = 10, row_scope = ''activation''\<rparr>,
                        \<lparr>row_hash = [2], row_user_id = 42, row_expiry = 10, row_scope = ''authentication''\<rparr>,
                        \<lparr>row_hash = [3], row_user_id = 43, row_expiry = 10, row_scope = ''activation''\<rparr>],
          issued = []\<rparr> ''activation'' 42) = None
   \<and> token_rows (snd (DeleteAllForUser None
        \<lparr>movie_rows = [],
          token_rows = [\<lparr>row_hash = [1], row_user_id = 42, row_expiry = 10, row_scope = ''activation''\<rparr>,
                        \<lparr>row_hash = [2], row_user_id = 42, row_expiry = 10, row_scope = ''authentication''\<rparr>,
                        \<lparr>row_hash = [3], row_user_id = 43, row_expiry = 10, row_scope = ''activation''\<rparr>],
          issued = []\<rparr> ''activation'' 42))
      = [\<lparr>row_hash = [2], row_user_id = 42, row_expiry = 10, row_scope = ''authentication''\<rparr>,
         \<lparr>row_hash = [3], row_user_id = 43, row_expiry = 10, row_scope = ''activation''\<rparr>]"
proof -
  let ?db = "\<lparr>movie_rows = [],
          token_rows = [\<lparr>row_hash = [1], row_user_id = 42, row_expiry = 10, row_scope = ''activation''\<rparr>,
                        \<lparr>row_hash = [2], row_user_id = 42, row_expiry = 10, row_scope = ''authentication''\<rparr>,
                        \<lparr>row_hash = [3], row_user_id = 43, row_expiry = 10, row_scope = ''activation''\<rparr>],
          issued = []\<rparr>"
  have ok: "fst (DeleteAllForUser None ?db ''activation'' 42) = None"
    by (simp add: DeleteAllForUser_def Let_def)
  from C7_DeleteAllForUser_idempotent [of None ?db "''activation''" 42 None] ok
  have "token_rows (snd (DeleteAllForUser None ?db ''activation'' 42))
          = filter (\<lambda>t. \<not> (row_scope t = ''activation'' \<and> row_user_id t = 42)) (token_rows ?db)"
    by blast
  then show ?thesis using ok by simp
qed

subsection \<open>Filters\<close>

lemma sortColumn_loop_member:
  "s \<in> set safe \<Longrightarrow> sortColumn_loop s safe = Inr (TrimPrefix s ''-'')"
  by (induction safe) auto

lemma sortColumn_loop_not_member:
  "s \<notin> set safe \<Longrightarrow> sortColumn_loop s safe = Inl (''unsafe sort parameter: '' @ s)"
  by (induction safe) auto

lemma TrimPrefix_hyphen:
  "TrimPrefix s ''-'' = (case s of [] \<Rightarrow> [] | c # rest \<Rightarrow> if c = CHR ''-'' then rest else s)"
  by (cases s) (auto simp: TrimPrefix_def HasPrefix_def)

lemma Valid_ValidateFilters:
  "Valid (ValidateFilters v f) =
     (Valid v \<and> 0 < sint (Page f) \<and> sint (Page f) \<le> 10000000
      \<and> 0 < sint (PageSize f) \<and> sint (PageSize f) \<le> 100
      \<and> Sort f \<in> set (SortSafeList f))"
  by (auto simp: ValidateFilters_def Valid_Check_iff PermittedValue_def Let_def)

text \<open>
  C5. When \<open>Sort\<close> is in the safelist, \<open>sortColumn\<close> returns (it does not panic) the
  \<open>Sort\<close> value without its leading hyphen, if it has one. A \<open>Filters\<close> value that leaves
  the validator valid has its \<open>Sort\<close> in the safelist, so the panic is out of reach after
  \<open>ValidateFilters\<close>; a \<open>Sort\<close> outside the safelist makes the validator invalid, and is
  the only way into the panic.
\<close>

theorem C5_sortColumn_safe_after_validation:
  "(Sort f \<in> set (SortSafeList f) \<longrightarrow>
      sortColumn f = Inr (TrimPrefix (Sort f) ''-'')
      \<and> TrimPrefix (Sort f) ''-''
          = (case Sort f of [] \<Rightarrow> [] | c # rest \<Rightarrow> if c = CHR ''-'' then rest else Sort f))
   \<and> (Valid (ValidateFilters v f) \<longrightarrow>
        Sort f \<in> set (SortSafeList f) \<and> sortColumn f = Inr (TrimPrefix (Sort f) ''-''))
   \<and> (Sort f \<notin> set (SortSafeList f) \<longrightarrow>
        \<not> Valid (ValidateFilters v f)
        \<and> sortColumn f = Inl (''unsafe sort parameter: '' @ Sort f))"
  using sortColumn_loop_member [of "Sort f" "SortSafeList f"]
    sortColumn_loop_not_member [of "Sort f" "SortSafeList f"]
    TrimPrefix_hyphen [of "Sort f"]
  by (simp add: sortColumn_def Valid_ValidateFilters)

text \<open>The safelist of the movie listing, with sort values \<open>-year\<close>, \<open>title\<close> and \<open>genres\<close>.\<close>

theorem C5_sortColumn_safe_after_validation_witness:
  "Valid (ValidateFilters \<lparr>Errors = []\<rparr>
      \<lparr>Page = 1, PageSize = 20, Sort = ''-year'',
        SortSafeList = [''id'', ''title'', ''year'', ''runtime'', ''-id'', ''-title'', ''-year'', ''-runtime'']\<rparr>)
   \<and> sortColumn \<lparr>Page = 1, PageSize = 20, Sort = ''-year'',
        SortSafeList = [''id'', ''title'', ''year'', ''runtime'', ''-id'', ''-title'', ''-year'', ''-runtime'']\<rparr>
       = Inr ''year''
   \<and> sortColumn \<lparr>Page = 1, PageSize = 20, Sort = ''title'',
        SortSafeList = [''id'', ''title'', ''year'', ''runtime'', ''-id'', ''-title'', ''-year'', ''-runtime'']\<rparr>
       = Inr ''title''
   \<and> \<not> Valid (ValidateFilters \<lparr>Errors = []\<rparr>
      \<lparr>Page = 1, PageSize = 20, Sort = ''genres'',
        SortSafeList = [''id'', ''title'', ''year'', ''runtime'', ''-id'', ''-title'', ''-year'', ''-runtime'']\<rparr>)"
proof -
  let ?safe = "[''id'', ''title'', ''year'', ''runtime'', ''-id'', ''-title'', ''-year'', ''-runtime'']"
  let ?f = "\<lparr>Page = 1, PageSize = 20, Sort = ''-year'', SortSafeList = ?safe\<rparr>"
  let ?g = "\<lparr>Page = 1, PageSize = 20, Sort = ''title'', SortSafeList = ?safe\<rparr>"
  let ?h = "\<lparr>Page = 1, PageSize = 20, Sort = ''genres'', SortSafeList = ?safe\<rparr>"
  have v: "Valid (ValidateFilters \<lparr>Errors = []\<rparr> ?f)"
    by (simp add: ValidateFilters_def Check_def PermittedValue_def Valid_def)
  have g: "Sort ?g \<in> set (SortSafeList ?g)" by simp
  have h: "Sort ?h \<notin> set (SortSafeList ?h)" by simp
  from C5_sortColumn_safe_after_validation [of ?f "\<lparr>Errors = []\<rparr>"] v
  have 1: "sortColumn ?f = Inr (TrimPrefix (Sort ?f) ''-'')" by blast
  from C5_sortColumn_safe_after_validation [of ?g "\<lparr>Errors = []\<rparr>"] g
  have 2: "sortColumn ?g = Inr (TrimPrefix (Sort ?g) ''-'')" by blast
  from C5_sortColumn_safe_after_validation [of ?h "\<lparr>Errors = []\<rparr>"] h
  have 3: "\<not> Valid (ValidateFilters \<lparr>Errors = []\<rparr> ?h)" by blast
  show ?thesis using v 1 2 3 by (simp add: TrimPrefix_def HasPrefix_def)
qed

subsection \<open>Users\<close>

lemma exported_names:
  "exported ''ID''" "exported ''CreatedAt''" "exported ''Name''" "exported ''Email''"
  "exported ''Password''" "exported ''Activated''" "exported ''Version''"
  by (simp_all add: exported_def)

text \<open>
  C8 (as amended). \<open>password_Set\<close> always asks for the hash at cost 12: its result is
  determined by what the hashing function returns at cost 12, and two hashing functions
  that agree at cost 12 for the password give the same result, whatever they do at other
  costs. No setting reaches the call.
\<close>

theorem C8_password_Set_uses_cost_12:
  "password_Set G p pw =
     (case G (bytes_of pw) 12 of
        Inl err \<Rightarrow> (Some err, p)
      | Inr h \<Rightarrow> (None, \<lparr>plaintext = Some pw, hash = h\<rparr>))
   \<and> (G (bytes_of pw) 12 = G' (bytes_of pw) 12 \<longrightarrow> password_Set G p pw = password_Set G' p pw)"
  by (cases p) (simp add: password_Set_def split: sum.splits)

text \<open>Two hashing functions that agree at cost 12 only.\<close>

theorem C8_password_Set_uses_cost_12_witness:
  "password_Set (\<lambda>pw cost. Inr [of_int cost]) \<lparr>plaintext = None, hash = []\<rparr> ''pa55word''
     = password_Set (\<lambda>pw cost. Inr [12]) \<lparr>plaintext = None, hash = []\<rparr> ''pa55word''"
proof -
  have "(\<lambda>pw cost. Inr [of_int cost] :: string + byte list) (bytes_of ''pa55word'') 12
      = (\<lambda>pw cost. Inr [12]) (bytes_of ''pa55word'') 12" by simp
  with C8_password_Set_uses_cost_12 [of "\<lambda>pw cost. Inr [of_int cost]" "\<lparr>plaintext = None, hash = []\<rparr>" "''pa55word''" "\<lambda>pw cost. Inr [12]"]
  show ?thesis by blast
qed

text \<open>
  The claim as stated, that the configured cost is the one used: with a hashing function
  whose output is its cost, the stored hash is that of cost 12 and not that of a
  configured cost 10.
\<close>

theorem C8_cost_is_not_configurable_counterexample:
  "password_Set (\<lambda>pw cost. Inr [of_int cost]) \<lparr>plaintext = None, hash = []\<rparr> ''pa55word''
     = (None, \<lparr>plaintext = Some ''pa55word'', hash = [12]\<rparr>)
   \<and> password_Set (\<lambda>pw cost. Inr [of_int cost]) \<lparr>plaintext = None, hash = []\<rparr> ''pa55word''
     \<noteq> (None, \<lparr>plaintext = Some ''pa55word'', hash = [10]\<rparr>)"
  by (simp add: password_Set_def)

text \<open>
  C9. The JSON encoding of a \<open>User\<close> does not depend on its \<open>Password\<close> or \<open>Version\<close>:
  replacing both by any other values leaves the output as it was, and the output has
  exactly the keys id, created_at, name, email and activated.
\<close>

theorem C9_User_json_hides_password_and_version:
  "json_Marshal_User (u\<lparr>Password := p, User.Version := n\<rparr>) = json_Marshal_User u
   \<and> json_Marshal_User u =
       JObject [(''id'', JNumber (sint (User.ID u))), (''created_at'', JTime (User.CreatedAt u)),
                (''name'', JString (Name u)), (''email'', JString (Email u)),
                (''activated'', JBool (Activated u))]"
  by (simp add: json_Marshal_User_def reflect_User_def exported_names)

subsection \<open>The rate limiter\<close>

lemma Admit_existing:
  "enabled cfg \<Longrightarrow> buckets key = Some b \<Longrightarrow>
     Admit cfg now key buckets =
       (if 1 \<le> min (of_int (burst cfg)) (tokens b + (now - lastRefill b) * rps cfg)
        then (True, buckets(key \<mapsto>
                \<lparr>tokens = min (of_int (burst cfg)) (tokens b + (now - lastRefill b) * rps cfg) - 1,
                  lastRefill = now\<rparr>))
        else (False, buckets(key \<mapsto>
                \<lparr>tokens = min (of_int (burst cfg)) (tokens b + (now - lastRefill b) * rps cfg),
                  lastRefill = now\<rparr>)))"
  by (simp add: Admit_def refill_def Let_def)

lemma Admit_fresh:
  "enabled cfg \<Longrightarrow> buckets key = None \<Longrightarrow>
     Admit cfg now key buckets =
       Admit cfg now key (buckets(key \<mapsto> \<lparr>tokens = of_int (burst cfg), lastRefill = now\<rparr>))"
  by (simp add: Admit_def refill_def Let_def)

lemma Admit_default_step:
  "buckets key = Some \<lparr>tokens = x, lastRefill = t0\<rparr> \<Longrightarrow>
     Admit default_limiter now key buckets =
       (if 1 \<le> min 4 (x + (now - t0) * 2)
        then (True, buckets(key \<mapsto> \<lparr>tokens = min 4 (x + (now - t0) * 2) - 1, lastRefill = now\<rparr>))
        else (False, buckets(key \<mapsto> \<lparr>tokens = min 4 (x + (now - t0) * 2), lastRefill = now\<rparr>)))"
  using Admit_existing [of default_limiter buckets key "\<lparr>tokens = x, lastRefill = t0\<rparr>" now]
  by (simp add: default_limiter_def)

lemma limiter_scenario:
  assumes "buckets key = None"
  shows "Admit_run default_limiter key [t, t, t, t, t, t + 1/2, t + 1/2] buckets
       = [True, True, True, True, False, True, False]"
proof -
  let ?B = "\<lambda>x t0. buckets(key \<mapsto> \<lparr>tokens = x, lastRefill = t0\<rparr>)"
  have s0: "Admit default_limiter t key buckets = Admit default_limiter t key (?B 4 t)"
    using Admit_fresh [of default_limiter buckets key t] assms by (simp add: default_limiter_def)
  have s1: "Admit default_limiter t key (?B 4 t) = (True, ?B 3 t)"
    by (subst Admit_default_step [of _ _ 4 t]) simp_all
  have s2: "Admit default_limiter t key (?B 3 t) = (True, ?B 2 t)"
    by (subst Admit_default_step [of _ _ 3 t]) simp_all
  have s3: "Admit default_limiter t key (?B 2 t) = (True, ?B 1 t)"
    by (subst Admit_default_step [of _ _ 2 t]) simp_all
  have s4: "Admit default_limiter t key (?B 1 t) = (True, ?B 0 t)"
    by (subst Admit_default_step [of _ _ 1 t]) simp_all
  have s5: "Admit default_limiter t key (?B 0 t) = (False, ?B 0 t)"
    by (subst Admit_default_step [of _ _ 0 t]) simp_all
  have s6: "Admit default_limiter (t + 1/2) key (?B 0 t) = (True, ?B 0 (t + 1/2))"
    by (subst Admit_default_step [of _ _ 0 t]) simp_all
  have s7: "Admit default_limiter (t + 1/2) key (?B 0 (t + 1/2)) = (False, ?B 0 (t + 1/2))"
    by (subst Admit_default_step [of _ _ 0 "t + 1/2"]) simp_all
  show ?thesis
    by (simp add: s0 s1 s2 s3 s4 s5 s6 s7 Let_def)
qed

text \<open>
  C4. With the default settings (2 tokens per second, burst 4) and no bucket yet for the
  client key, five checks at one instant admit four and reject the fifth, and of two
  checks half a second later exactly the first is admitted. In general, for an enabled
  limiter and an existing bucket, a check refills by elapsed time times rate up to the
  burst, sets \<open>lastRefill\<close> to now, and admits exactly when at least one token is there,
  taking one; a first check starts from a full bucket; a disabled limiter admits.
\<close>

theorem C4_token_bucket_admission:
  "(buckets key = None \<longrightarrow>
      Admit_run default_limiter key [t, t, t, t, t, t + 1/2, t + 1/2] buckets
        = [True, True, True, True, False, True, False])
   \<and> (enabled cfg \<and> buckets key = Some b \<longrightarrow>
        Admit cfg now key buckets =
          (if 1 \<le> min (of_int (burst cfg)) (tokens b + (now - lastRefill b) * rps cfg)
           then (True, buckets(key \<mapsto>
                  \<lparr>tokens = min (of_int (burst cfg)) (tokens b + (now - lastRefill b) * rps cfg) - 1,
                    lastRefill = now\<rparr>))
           else (False, buckets(key \<mapsto>
                  \<lparr>tokens = min (of_int (burst cfg)) (tokens b + (now - lastRefill b) * rps cfg),
                    lastRefill = now\<rparr>))))
   \<and> (enabled cfg \<and> buckets key = None \<longrightarrow>
        Admit cfg now key buckets =
          Admit cfg now key (buckets(key \<mapsto> \<lparr>tokens = of_int (burst cfg), lastRefill = now\<rparr>)))
   \<and> (\<not> enabled cfg \<longrightarrow> Admit cfg now key buckets = (True, buckets))"
proof -
  have d: "\<not> enabled cfg \<longrightarrow> Admit cfg now key buckets = (True, buckets)"
    by (simp add: Admit_def)
  show ?thesis
    using limiter_scenario [of buckets key t] Admit_existing [of cfg buckets key b now]
      Admit_fresh [of cfg buckets key now] d
    by blast
qed

text \<open>The run of the spec, from time 0, for one client and an empty limiter.\<close>

theorem C4_token_bucket_admission_witness:
  "Admit_run default_limiter ''10.0.0.1'' [0, 0, 0, 0, 0, 1/2, 1/2] Map.empty
     = [True, True, True, True, False, True, False]
   \<and> Admit default_limiter 3 ''10.0.0.1'' [''10.0.0.1'' \<mapsto> \<lparr>tokens = 0, lastRefill = 1\<rparr>]
     = (True, [''10.0.0.1'' \<mapsto> \<lparr>tokens = 3, lastRefill = 3\<rparr>])"
proof -
  have e: "enabled default_limiter" by (simp add: default_limiter_def)
  have n: "(Map.empty :: string \<rightharpoonup> RateBucket) ''10.0.0.1'' = None" by simp
  have s: "[''10.0.0.1'' \<mapsto> \<lparr>tokens = 0, lastRefill = 1\<rparr>] ''10.0.0.1''
             = Some \<lparr>tokens = 0, lastRefill = 1\<rparr>" by simp
  from C4_token_bucket_admission [of Map.empty "''10.0.0.1''" 0 default_limiter
      "\<lparr>tokens = 0, lastRefill = 1\<rparr>" 0] n
  have run: "Admit_run default_limiter ''10.0.0.1'' [0, 0, 0, 0, 0, 0 + 1/2, 0 + 1/2] Map.empty
     = [True, True, True, True, False, True, False]"
    by blast
  from C4_token_bucket_admission [of "[''10.0.0.1'' \<mapsto> \<lparr>tokens = 0, lastRefill = 1\<rparr>]"
      "''10.0.0.1''" 0 default_limiter "\<lparr>tokens = 0, lastRefill = 1\<rparr>" 3] e s
  have one: "Admit default_limiter 3 ''10.0.0.1'' [''10.0.0.1'' \<mapsto> \<lparr>tokens = 0, lastRefill = 1\<rparr>] =
          (if 1 \<le> min (of_int (burst default_limiter))
                     (tokens \<lparr>tokens = 0, lastRefill = 1\<rparr>
                       + (3 - lastRefill \<lparr>tokens = 0, lastRefill = 1\<rparr>) * rps default_limiter)
           then (True, [''10.0.0.1'' \<mapsto> \<lparr>tokens = 0, lastRefill = 1\<rparr>](''10.0.0.1'' \<mapsto>
                  \<lparr>tokens = min (of_int (burst default_limiter))
                     (tokens \<lparr>tokens = 0, lastRefill = 1\<rparr>
                       + (3 - lastRefill \<lparr>tokens = 0, lastRefill = 1\<rparr>) * rps default_limiter) - 1,
                    lastRefill = 3\<rparr>))
           else (False, [''10.0.0.1'' \<mapsto> \<lparr>tokens = 0, lastRefill = 1\<rparr>](''10.0.0.1'' \<mapsto>
                  \<lparr>tokens = min (of_int (burst default_limiter))
                     (tokens \<lparr>tokens = 0, lastRefill = 1\<rparr>
                       + (3 - lastRefill \<lparr>tokens = 0, lastRefill = 1\<rparr>) * rps default_limiter),
                    lastRefill = 3\<rparr>)))"
    by blast
  have two: "Admit default_limiter 3 ''10.0.0.1'' [''10.0.0.1'' \<mapsto> \<lparr>tokens = 0, lastRefill = 1\<rparr>]
     = (True, [''10.0.0.1'' \<mapsto> \<lparr>tokens = 3, lastRefill = 3\<rparr>])"
    unfolding one by (simp add: default_limiter_def)
  show ?thesis using run two by simp
qed


end
